theory Spec2Isabelle
  imports Complex_Main
begin

section \<open>Lateral torque controller (selfdrive/controls/lib/latcontrol_torque.py)\<close>

text \<open>
  A shallow embedding of the class \<open>LatControlTorque\<close>. Python floats are modelled as
  reals: no rounding, no infinities and no NaN, so \<open>0.0\<close> and \<open>-0.0\<close> are the same
  number. An exception is a value \<open>Inl e\<close> of the result type; a mutation of \<open>self\<close> is
  an updated copy of the controller record returned next to the result.
\<close>

subsection \<open>Errors\<close>

datatype error = ZeroDivisionError | IndexError

definition pydiv :: "real \<Rightarrow> real \<Rightarrow> error + real" where
  \<comment> \<open>Python's float division \<open>a / b\<close> raises when the divisor is zero.\<close>
  "pydiv a b = (if b = 0 then Inl ZeroDivisionError else Inr (a / b))"

definition getitem :: "real list \<Rightarrow> nat \<Rightarrow> error + real" where
  \<comment> \<open>\<open>xs[n]\<close> for a non-negative literal index raises past the end of the list.\<close>
  "getitem xs n = (if n < length xs then Inr (xs ! n) else Inl IndexError)"

subsection \<open>Constants of the module and the standard library\<close>

definition LOW_SPEED_FACTOR :: real where
  "LOW_SPEED_FACTOR = 200"

definition JERK_THRESHOLD :: real where
  "JERK_THRESHOLD = 2 / 10"

definition LR_SPLIT_PT :: real where
  \<comment> \<open>The local constant of \<open>update\<close>, line 99.\<close>
  "LR_SPLIT_PT = 2 / 10000"

definition isclose :: "real \<Rightarrow> real \<Rightarrow> bool" where
  \<comment> \<open>\<open>math.isclose(a, b)\<close> with its defaults \<open>rel_tol = 1e-09\<close> and \<open>abs_tol = 0.0\<close>.\<close>
  "isclose a b =
     (a = b \<or> \<bar>b - a\<bar> \<le> \<bar>(1 / 10 ^ 9) * b\<bar> \<or> \<bar>b - a\<bar> \<le> \<bar>(1 / 10 ^ 9) * a\<bar> \<or> \<bar>b - a\<bar> \<le> 0)"

definition radians :: "real \<Rightarrow> real" where
  \<comment> \<open>\<open>math.radians\<close>.\<close>
  "radians x = x * pi / 180"

subsection \<open>Configuration, inputs and diagnostics\<close>

text \<open>
  \<open>CP.lateralTuning.torque\<close> and \<open>CP.lateralTuningRight.torque\<close> are two tuning sets
  of the same shape; \<open>CP\<close> is the live configuration object the controller keeps a
  reference to, so its fields may differ from one tick to the next.
\<close>

record torque_tune =
  kp :: real
  ki :: real
  kd :: real
  kf :: real
  friction :: real
  useSteeringAngle :: bool

record car_params =
  lateralTuning :: torque_tune
  lateralTuningRight :: torque_tune
  lateralTuneSplit :: bool

record car_state =
  vEgo :: real
  steeringAngleDeg :: real
  steeringPressed :: bool
  steeringRateLimited :: bool

record live_params =
  angleOffsetDeg :: real
  roll :: real

text \<open>
  The message \<open>log.ControlsState.LateralTorqueState\<close>; a new message holds zeros and
  \<open>False\<close>.
\<close>

record lateral_torque_state =
  log_active :: bool
  log_usingRightTune :: bool
  log_error :: real
  log_p :: real
  log_i :: real
  log_d :: real
  log_f :: real
  log_output :: real
  log_saturated :: bool
  log_actualLateralAccel :: real
  log_desiredLateralAccel :: real

definition new_message :: lateral_torque_state where
  "new_message =
     \<lparr>log_active = False, log_usingRightTune = False, log_error = 0, log_p = 0, log_i = 0,
      log_d = 0, log_f = 0, log_output = 0, log_saturated = False,
      log_actualLateralAccel = 0, log_desiredLateralAccel = 0\<rparr>"

subsection \<open>The controller and its collaborators\<close>

text \<open>
  The fields of \<open>PIDController\<close> that this class reads or writes: the gains (\<open>k_p\<close> and
  \<open>k_i\<close> stand for the entries \<open>_k_p[1][0]\<close> and \<open>_k_i[1][0]\<close> of the gain tables
  built from the scalar gains at construction), the two output limits and the terms
  \<open>p\<close>, \<open>i\<close>, \<open>d\<close>, \<open>f\<close> it accumulates.
\<close>

record pid_controller =
  k_p :: real
  k_i :: real
  k_d :: real
  k_f :: real
  pos_limit :: real
  neg_limit :: real
  pid_p :: real
  pid_i :: real
  pid_d :: real
  pid_f :: real

text \<open>
  The object \<open>self\<close>. The state of the base class \<open>LatControl\<close> (its saturation
  counters) is kept abstract in \<open>base\<close>; \<open>self.steer_max\<close> is set by the base class.
\<close>

record 'b lat_control_torque =
  base :: 'b
  self_steer_max :: real
  self_CP :: car_params
  self_pid :: pid_controller
  self_get_steer_feedforward :: "real \<Rightarrow> real \<Rightarrow> real"
  self_use_steering_angle :: bool
  self_friction :: real
  self_lateralTuneSplit :: bool

text \<open>
  What the module imports and does not define: the constants \<open>MIN_STEER_SPEED\<close> and
  \<open>ACCELERATION_DUE_TO_GRAVITY\<close>, \<open>interp\<close> of \<open>common.numpy_fast\<close>, the methods
  \<open>update\<close> and \<open>reset\<close> of \<open>PIDController\<close>, and \<open>reset\<close> and \<open>_check_saturation\<close> of
  the base class. They are parameters of the model; each method takes the object it
  mutates and returns it updated.
\<close>

record 'b collaborators =
  MIN_STEER_SPEED :: real
  ACCELERATION_DUE_TO_GRAVITY :: real
  interp :: "real \<Rightarrow> real list \<Rightarrow> real list \<Rightarrow> real"
  pid_update :: "pid_controller \<Rightarrow> real \<Rightarrow> bool \<Rightarrow> real \<Rightarrow> real \<Rightarrow> bool \<Rightarrow> pid_controller \<times> real"
  pid_reset :: "pid_controller \<Rightarrow> pid_controller"
  base_reset :: "'b \<Rightarrow> 'b"
  check_saturation :: "'b \<Rightarrow> bool \<Rightarrow> car_state \<Rightarrow> 'b \<times> bool"

subsection \<open>Construction and reset\<close>

definition PIDController :: "real \<Rightarrow> real \<Rightarrow> real \<Rightarrow> real \<Rightarrow> real \<Rightarrow> real \<Rightarrow> pid_controller" where
  \<comment> \<open>Modelled from the spec: the constructor of the PID primitive, which is not part of
      the sources; it stores the gains and the limits it is given, with cleared
      accumulators. The arguments are \<open>k_p\<close>, \<open>k_i\<close>, \<open>k_d\<close>, \<open>k_f\<close>, \<open>pos_limit\<close>,
      \<open>neg_limit\<close>.\<close>
  "PIDController p0 i0 d0 f0 pos neg =
     \<lparr>k_p = p0, k_i = i0, k_d = d0, k_f = f0, pos_limit = pos, neg_limit = neg,
      pid_p = 0, pid_i = 0, pid_d = 0, pid_f = 0\<rparr>"

definition init :: "'b \<Rightarrow> real \<Rightarrow> car_params \<Rightarrow> (real \<Rightarrow> real \<Rightarrow> real) \<Rightarrow> 'b lat_control_torque" where
  \<comment> \<open>\<open>__init__\<close>; \<open>b\<close> and \<open>steer_max\<close> are what \<open>super().__init__\<close> has set, \<open>ff\<close> is
      \<open>CI.get_steer_feedforward_function()\<close>.\<close>
  "init b steer_max cp ff =
     \<lparr>base = b,
      self_steer_max = steer_max,
      self_CP = cp,
      self_pid = PIDController (kp (lateralTuning cp)) (ki (lateralTuning cp))
                   (kd (lateralTuning cp)) (kf (lateralTuning cp)) steer_max (- steer_max),
      self_get_steer_feedforward = ff,
      self_use_steering_angle = useSteeringAngle (lateralTuning cp),
      self_friction = friction (lateralTuning cp),
      self_lateralTuneSplit = lateralTuneSplit cp\<rparr>"

definition reset :: "'b collaborators \<Rightarrow> 'b lat_control_torque \<Rightarrow> 'b lat_control_torque" where
  "reset env s = s\<lparr>base := base_reset env (base s), self_pid := pid_reset env (self_pid s)\<rparr>"

subsection \<open>Change detection\<close>

definition detectChange :: "'b lat_control_torque \<Rightarrow> 'b lat_control_torque" where
  "detectChange s =
     (let t = lateralTuning (self_CP s);
          s1 = (if \<not> isclose (k_f (self_pid s)) (kf t)
                then s\<lparr>self_pid := (self_pid s)\<lparr>k_f := kf t\<rparr>\<rparr> else s);
          s2 = (if \<not> isclose (k_p (self_pid s1)) (kp t)
                then s1\<lparr>self_pid := (self_pid s1)\<lparr>k_p := kp t\<rparr>\<rparr> else s1);
          s3 = (if \<not> isclose (k_i (self_pid s2)) (ki t)
                then s2\<lparr>self_pid := (self_pid s2)\<lparr>k_i := ki t\<rparr>\<rparr> else s2);
          s4 = (if self_use_steering_angle s3 \<noteq> useSteeringAngle t
                then s3\<lparr>self_use_steering_angle := useSteeringAngle t\<rparr> else s3);
          s5 = (if \<not> isclose (self_friction s4) (friction t)
                then s4\<lparr>self_friction := friction t\<rparr> else s4)
      in s5)"

definition detectChangeRight :: "'b lat_control_torque \<Rightarrow> 'b lat_control_torque" where
  "detectChangeRight s =
     (let t = lateralTuningRight (self_CP s);
          s1 = (if \<not> isclose (k_f (self_pid s)) (kf t)
                then s\<lparr>self_pid := (self_pid s)\<lparr>k_f := kf t\<rparr>\<rparr> else s);
          s2 = (if \<not> isclose (k_p (self_pid s1)) (kp t)
                then s1\<lparr>self_pid := (self_pid s1)\<lparr>k_p := kp t\<rparr>\<rparr> else s1);
          s3 = (if \<not> isclose (k_i (self_pid s2)) (ki t)
                then s2\<lparr>self_pid := (self_pid s2)\<lparr>k_i := ki t\<rparr>\<rparr> else s2);
          s4 = (if self_use_steering_angle s3 \<noteq> useSteeringAngle t
                then s3\<lparr>self_use_steering_angle := useSteeringAngle t\<rparr> else s3);
          s5 = (if \<not> isclose (self_friction s4) (friction t)
                then s4\<lparr>self_friction := friction t\<rparr> else s4)
      in s5)"

subsection \<open>One tick\<close>

text \<open>
  \<open>update\<close> is split where the claims look at it. \<open>actual_curvature\<close> is lines 91 to 94,
  \<open>select_tune\<close> is lines 101 to 113 (it returns the controller and the value left in
  \<open>pid_log.usingRightTune\<close>), \<open>control_law\<close> is lines 91 to 133: everything the active
  branch computes before it calls the PID primitive. \<open>update\<close> itself is the gate of
  lines 85 to 89, the call of line 134 and the log of lines 139 to 147. The argument
  \<open>last_actuators\<close> is never read and is left out; \<open>vm\<close> is \<open>VM.calc_curvature\<close> and
  \<open>llk\<close> is the list \<open>llk.angularVelocityCalibrated.value\<close>.
\<close>

definition actual_curvature ::
  "'b lat_control_torque \<Rightarrow> car_state \<Rightarrow> (real \<Rightarrow> real \<Rightarrow> real \<Rightarrow> real) \<Rightarrow> live_params \<Rightarrow>
   real list \<Rightarrow> error + real" where
  "actual_curvature s cs vm params llk =
     (if self_use_steering_angle s
      then Inr (- vm (radians (steeringAngleDeg cs - angleOffsetDeg params)) (vEgo cs) (roll params))
      else (case getitem llk 2 of
              Inl e \<Rightarrow> Inl e
            | Inr yaw \<Rightarrow> pydiv yaw (vEgo cs)))"

definition select_tune :: "'b lat_control_torque \<Rightarrow> real \<Rightarrow> 'b lat_control_torque \<times> bool" where
  "select_tune s desired_curvature =
     (let s1 = (if self_lateralTuneSplit s \<noteq> lateralTuneSplit (self_CP s)
                then (let s0 = (if \<not> lateralTuneSplit (self_CP s) then detectChange s else s)
                      in s0\<lparr>self_lateralTuneSplit := lateralTuneSplit (self_CP s0)\<rparr>)
                else s)
      in if lateralTuneSplit (self_CP s1)
         then (let curve_is_right = (desired_curvature \<ge> LR_SPLIT_PT)
               in (if curve_is_right then detectChangeRight s1 else detectChange s1,
                   curve_is_right))
         else (s1, False))"

record 'b pid_call =
  call_self :: "'b lat_control_torque"
  call_usingRightTune :: bool
  call_error :: real
  call_feedforward :: real
  call_friction_term :: real
  call_actual_lateral_accel :: real
  call_desired_lateral_accel :: real

definition control_law ::
  "'b collaborators \<Rightarrow> 'b lat_control_torque \<Rightarrow> car_state \<Rightarrow> (real \<Rightarrow> real \<Rightarrow> real \<Rightarrow> real) \<Rightarrow>
   live_params \<Rightarrow> real \<Rightarrow> real \<Rightarrow> real list \<Rightarrow> error + 'b pid_call" where
  "control_law env s cs vm params desired_curvature desired_curvature_rate llk =
     (case actual_curvature s cs vm params llk of
        Inl e \<Rightarrow> Inl e
      | Inr actual_curv \<Rightarrow>
          (let desired_lateral_accel = desired_curvature * (vEgo cs) ^ 2;
               desired_lateral_jerk = desired_curvature_rate * (vEgo cs) ^ 2;
               actual_lateral_accel = actual_curv * (vEgo cs) ^ 2;
               (s1, right) = select_tune s desired_curvature;
               setpoint = desired_lateral_accel + LOW_SPEED_FACTOR * desired_curvature;
               measurement = actual_lateral_accel + LOW_SPEED_FACTOR * actual_curv;
               err = setpoint - measurement;
               ff = desired_lateral_accel - roll params * ACCELERATION_DUE_TO_GRAVITY env;
               friction_compensation =
                 interp env desired_lateral_jerk [- JERK_THRESHOLD, JERK_THRESHOLD]
                   [- self_friction s1, self_friction s1]
           in (case pydiv friction_compensation (kf (lateralTuning (self_CP s1))) of
                 Inl e \<Rightarrow> Inl e
               | Inr q \<Rightarrow>
                   Inr \<lparr>call_self = s1, call_usingRightTune = right, call_error = err,
                        call_feedforward = ff + q, call_friction_term = q,
                        call_actual_lateral_accel = actual_lateral_accel,
                        call_desired_lateral_accel = desired_lateral_accel\<rparr>)))"

definition update ::
  "'b collaborators \<Rightarrow> 'b lat_control_torque \<Rightarrow> bool \<Rightarrow> car_state \<Rightarrow>
   (real \<Rightarrow> real \<Rightarrow> real \<Rightarrow> real) \<Rightarrow> live_params \<Rightarrow> real \<Rightarrow> real \<Rightarrow> real list \<Rightarrow>
   error + ('b lat_control_torque \<times> real \<times> real \<times> lateral_torque_state)" where
  "update env s active cs vm params desired_curvature desired_curvature_rate llk =
     (let pid_log = new_message\<lparr>log_usingRightTune := False\<rparr>
      in if vEgo cs < MIN_STEER_SPEED env \<or> \<not> active
         then (let output_torque = 0;
                   pid_log = pid_log\<lparr>log_active := False\<rparr>;
                   s = (if \<not> active then s\<lparr>self_pid := pid_reset env (self_pid s)\<rparr> else s)
               in Inr (s, - output_torque, 0, pid_log))
         else (case control_law env s cs vm params desired_curvature desired_curvature_rate llk of
                 Inl e \<Rightarrow> Inl e
               | Inr c \<Rightarrow>
                   (let s1 = call_self c;
                        pid_log = pid_log\<lparr>log_usingRightTune := call_usingRightTune c,
                                          log_error := call_error c\<rparr>;
                        (pid1, output_torque) =
                          pid_update env (self_pid s1) (call_error c) (steeringPressed cs)
                            (call_feedforward c) (vEgo cs) (steeringRateLimited cs);
                        s2 = s1\<lparr>self_pid := pid1\<rparr>;
                        (b, saturated) =
                          check_saturation env (base s2)
                            (self_steer_max s2 - \<bar>output_torque\<bar> < 1 / 1000) cs;
                        s3 = s2\<lparr>base := b\<rparr>;
                        pid_log = pid_log\<lparr>log_active := True, log_p := pid_p pid1,
                                          log_i := pid_i pid1, log_d := pid_d pid1,
                                          log_f := pid_f pid1, log_output := - output_torque,
                                          log_saturated := saturated,
                                          log_actualLateralAccel := call_actual_lateral_accel c,
                                          log_desiredLateralAccel := call_desired_lateral_accel c\<rparr>
                    in Inr (s3, - output_torque, 0, pid_log))))"

subsection \<open>Reference collaborators\<close>

fun interp_clamped :: "real \<Rightarrow> real list \<Rightarrow> real list \<Rightarrow> real" where
  \<comment> \<open>Modelled from the spec: the linear interpolation collaborator
      (\<open>common.numpy_fast.interp\<close>, not part of the sources) maps a scalar through a
      piecewise-linear breakpoint table with clamped extrapolation. The breakpoints
      \<open>xp\<close> are increasing and \<open>fp\<close> has a value for each; the last equation is not
      reached from this module, whose table has two points.\<close>
  "interp_clamped x (x0 # x1 # xp) (f0 # f1 # fp) =
     (if x \<le> x0 then f0
      else if x \<le> x1 then (x - x0) * (f1 - f0) / (x1 - x0) + f0
      else interp_clamped x (x1 # xp) (f1 # fp))"
| "interp_clamped x xp (f0 # fp) = f0"
| "interp_clamped x xp [] = 0"

definition pid_reset_cleared :: "pid_controller \<Rightarrow> pid_controller" where
  \<comment> \<open>Modelled from the spec: \<open>reset()\<close> of the PID primitive, not part of the sources,
      clears the accumulators and leaves the gains and the limits.\<close>
  "pid_reset_cleared c = c\<lparr>pid_p := 0, pid_i := 0, pid_d := 0, pid_f := 0\<rparr>"

definition pid_update_clipped ::
  "pid_controller \<Rightarrow> real \<Rightarrow> bool \<Rightarrow> real \<Rightarrow> real \<Rightarrow> bool \<Rightarrow> pid_controller \<times> real" where
  \<comment> \<open>Modelled from the spec: \<open>update\<close> of the PID primitive, which is not part of the
      sources. The spec fixes its interface, that \<open>freeze_integrator\<close> halts the
      accumulation of the integral term without resetting it, and that the output is
      clamped to the limits; the rest (no derivative term, \<open>override\<close> halting the
      integral term as well) is a choice made here. It stands for the collaborator in
      the closed examples only; no theorem about every tick depends on it.\<close>
  "pid_update_clipped c err override feedforward speed freeze_integrator =
     (let p1 = err * k_p c;
          f1 = feedforward * k_f c;
          i1 = (if override \<or> freeze_integrator then pid_i c else pid_i c + err * k_i c);
          control = max (neg_limit c) (min (pos_limit c) (p1 + i1 + f1))
      in (c\<lparr>pid_p := p1, pid_i := i1, pid_f := f1\<rparr>, control))"

subsection \<open>Contracts of the collaborators\<close>

text \<open>
  Two properties of the collaborators that claims assume. The first says that the PID
  primitive built with the limits \<open>m\<close> and \<open>- m\<close> keeps its output between them; the
  second that the interpolation, on the table of \<open>update\<close>, is the clamped piecewise-linear
  map \<open>interp_clamped\<close>.
\<close>

definition pid_clamps :: "'b collaborators \<Rightarrow> real \<Rightarrow> bool" where
  "pid_clamps env m =
     (\<forall>c e ov ff sp fr.
        pos_limit c = m \<and> neg_limit c = - m \<longrightarrow>
          - m \<le> snd (pid_update env c e ov ff sp fr) \<and> snd (pid_update env c e ov ff sp fr) \<le> m)"


subsection \<open>Sample inputs\<close>

text \<open>
  A controller built by \<open>init\<close> with \<open>steer_max = 1\<close> and the reference
  collaborators, for the closed examples below. The right-turn set of \<open>sample_CP\<close> differs
  from the default set in \<open>kf\<close> only.
\<close>

definition check_saturation_instant :: "unit \<Rightarrow> bool \<Rightarrow> car_state \<Rightarrow> unit \<times> bool" where
  \<comment> \<open>A saturation check without debouncing, in place of the base class's.\<close>
  "check_saturation_instant b saturated cs = (b, saturated)"

definition sample_env :: "unit collaborators" where
  "sample_env =
     \<lparr>MIN_STEER_SPEED = 3 / 10, ACCELERATION_DUE_TO_GRAVITY = 981 / 100,
      interp = interp_clamped, pid_update = pid_update_clipped,
      pid_reset = pid_reset_cleared, base_reset = id,
      check_saturation = check_saturation_instant\<rparr>"

definition sample_tune :: torque_tune where
  "sample_tune = \<lparr>kp = 1, ki = 1 / 10, kd = 0, kf = 1, friction = 1, useSteeringAngle = False\<rparr>"

definition sample_CP :: car_params where
  "sample_CP =
     \<lparr>lateralTuning = sample_tune, lateralTuningRight = sample_tune\<lparr>kf := 2\<rparr>,
      lateralTuneSplit = False\<rparr>"

definition sample_self :: "car_params \<Rightarrow> unit lat_control_torque" where
  "sample_self cp = init () 1 cp (\<lambda>lat_accel speed. 0)"

definition at_speed :: "real \<Rightarrow> car_state" where
  "at_speed v =
     \<lparr>vEgo = v, steeringAngleDeg = 0, steeringPressed = False, steeringRateLimited = False\<rparr>"

definition level_road :: live_params where
  "level_road = \<lparr>angleOffsetDeg = 0, roll = 0\<rparr>"

definition straight_model :: "real \<Rightarrow> real \<Rightarrow> real \<Rightarrow> real" where
  \<comment> \<open>A curvature model that answers 0, in place of \<open>VM.calc_curvature\<close>.\<close>
  "straight_model angle speed road_roll = 0"

definition wound :: "unit lat_control_torque" where
  \<comment> \<open>The sample controller with a wound-up integrator.\<close>
  "wound = (sample_self sample_CP)\<lparr>self_pid := (self_pid (sample_self sample_CP))\<lparr>pid_i := 1 / 2\<rparr>\<rparr>"

definition drifted :: "unit lat_control_torque" where
  \<comment> \<open>The sample controller after the default set's \<open>kf\<close> was changed to 2 in the
      configuration; the PID primitive still holds 1.\<close>
  "drifted = (sample_self sample_CP)\<lparr>self_CP := sample_CP\<lparr>lateralTuning := sample_tune\<lparr>kf := 2\<rparr>\<rparr>\<rparr>"

definition split_self :: "unit lat_control_torque" where
  \<comment> \<open>A controller built while split tune is enabled.\<close>
  "split_self = sample_self (sample_CP\<lparr>lateralTuneSplit := True\<rparr>)"

definition split_self_after :: "unit lat_control_torque" where
  \<comment> \<open>What \<open>split_self\<close> has become after one right-turn tick at 1 m/s.\<close>
  "split_self_after =
     split_self\<lparr>self_pid := (self_pid split_self)
       \<lparr>k_f := 2, pid_p := 201 / 1000, pid_i := 201 / 10000, pid_f := 1001 / 500\<rparr>\<rparr>"

definition right_tick_log :: lateral_torque_state where
  \<comment> \<open>The log of that tick.\<close>
  "right_tick_log =
     \<lparr>log_active = True, log_usingRightTune = True, log_error = 201 / 1000,
      log_p = 201 / 1000, log_i = 201 / 10000, log_d = 0, log_f = 1001 / 500,
      log_output = - 1, log_saturated = True,
      log_actualLateralAccel = 0, log_desiredLateralAccel = 1 / 1000\<rparr>"

definition disabled_self :: "unit lat_control_torque" where
  \<comment> \<open>Split tune is then switched off in the configuration.\<close>
  "disabled_self = split_self_after\<lparr>self_CP := sample_CP\<rparr>"

definition zero_kf_self :: "unit lat_control_torque" where
  \<comment> \<open>A controller whose default set has \<open>kf = 0\<close>.\<close>
  "zero_kf_self = sample_self (sample_CP\<lparr>lateralTuning := sample_tune\<lparr>kf := 0\<rparr>\<rparr>)"

definition enabled_while_gated :: "unit lat_control_torque" where
  \<comment> \<open>The sample controller, built with split tune disabled, after the configuration
      has enabled split tune and changed the default set's \<open>kf\<close> to 2.\<close>
  "enabled_while_gated =
     (sample_self sample_CP)\<lparr>self_CP :=
        sample_CP\<lparr>lateralTuning := sample_tune\<lparr>kf := 2\<rparr>, lateralTuneSplit := True\<rparr>\<rparr>"

section \<open>Properties\<close>

subsection \<open>Change detection and tuning selection\<close>

lemma isclose_refl: "isclose a a"
  by (simp add: isclose_def)

lemma detectChange_frame:
  "base (detectChange s) = base s"
  "self_steer_max (detectChange s) = self_steer_max s"
  "self_CP (detectChange s) = self_CP s"
  "self_lateralTuneSplit (detectChange s) = self_lateralTuneSplit s"
  "self_get_steer_feedforward (detectChange s) = self_get_steer_feedforward s"
  by (simp_all add: detectChange_def Let_def)

lemma detectChange_pid:
  "self_pid (detectChange s) =
     (self_pid s)\<lparr>
       k_f := (if isclose (k_f (self_pid s)) (kf (lateralTuning (self_CP s)))
               then k_f (self_pid s) else kf (lateralTuning (self_CP s))),
       k_p := (if isclose (k_p (self_pid s)) (kp (lateralTuning (self_CP s)))
               then k_p (self_pid s) else kp (lateralTuning (self_CP s))),
       k_i := (if isclose (k_i (self_pid s)) (ki (lateralTuning (self_CP s)))
               then k_i (self_pid s) else ki (lateralTuning (self_CP s)))\<rparr>"
  by (simp add: detectChange_def Let_def)

lemma detectChange_cached:
  "self_use_steering_angle (detectChange s) = useSteeringAngle (lateralTuning (self_CP s))"
  "self_friction (detectChange s) =
     (if isclose (self_friction s) (friction (lateralTuning (self_CP s)))
      then self_friction s else friction (lateralTuning (self_CP s)))"
  by (auto simp add: detectChange_def Let_def)

lemma detectChangeRight_frame:
  "base (detectChangeRight s) = base s"
  "self_steer_max (detectChangeRight s) = self_steer_max s"
  "self_CP (detectChangeRight s) = self_CP s"
  "self_lateralTuneSplit (detectChangeRight s) = self_lateralTuneSplit s"
  "self_get_steer_feedforward (detectChangeRight s) = self_get_steer_feedforward s"
  by (simp_all add: detectChangeRight_def Let_def)

lemma detectChangeRight_pid:
  "self_pid (detectChangeRight s) =
     (self_pid s)\<lparr>
       k_f := (if isclose (k_f (self_pid s)) (kf (lateralTuningRight (self_CP s)))
               then k_f (self_pid s) else kf (lateralTuningRight (self_CP s))),
       k_p := (if isclose (k_p (self_pid s)) (kp (lateralTuningRight (self_CP s)))
               then k_p (self_pid s) else kp (lateralTuningRight (self_CP s))),
       k_i := (if isclose (k_i (self_pid s)) (ki (lateralTuningRight (self_CP s)))
               then k_i (self_pid s) else ki (lateralTuningRight (self_CP s)))\<rparr>"
  by (simp add: detectChangeRight_def Let_def)

lemma detectChangeRight_cached:
  "self_use_steering_angle (detectChangeRight s) = useSteeringAngle (lateralTuningRight (self_CP s))"
  "self_friction (detectChangeRight s) =
     (if isclose (self_friction s) (friction (lateralTuningRight (self_CP s)))
      then self_friction s else friction (lateralTuningRight (self_CP s)))"
  by (auto simp add: detectChangeRight_def Let_def)

lemma select_tune_frame:
  "base (fst (select_tune s dc)) = base s"
  "self_steer_max (fst (select_tune s dc)) = self_steer_max s"
  "self_CP (fst (select_tune s dc)) = self_CP s"
  "self_lateralTuneSplit (fst (select_tune s dc)) = lateralTuneSplit (self_CP s)"
  by (auto simp add: select_tune_def Let_def detectChange_frame detectChangeRight_frame)

lemma select_tune_pid_frame:
  "k_d (self_pid (fst (select_tune s dc))) = k_d (self_pid s)"
  "pos_limit (self_pid (fst (select_tune s dc))) = pos_limit (self_pid s)"
  "neg_limit (self_pid (fst (select_tune s dc))) = neg_limit (self_pid s)"
  "pid_p (self_pid (fst (select_tune s dc))) = pid_p (self_pid s)"
  "pid_i (self_pid (fst (select_tune s dc))) = pid_i (self_pid s)"
  "pid_d (self_pid (fst (select_tune s dc))) = pid_d (self_pid s)"
  "pid_f (self_pid (fst (select_tune s dc))) = pid_f (self_pid s)"
  by (simp_all add: select_tune_def Let_def detectChange_frame detectChangeRight_frame
        detectChange_pid detectChangeRight_pid)

lemma select_tune_disabled:
  assumes "\<not> lateralTuneSplit (self_CP s)" and "\<not> self_lateralTuneSplit s"
  shows "select_tune s dc = (s, False)"
  using assms by (simp add: select_tune_def)

lemma select_tune_enabled:
  assumes "lateralTuneSplit (self_CP s)"
  shows "select_tune s dc =
           (if dc \<ge> LR_SPLIT_PT
            then detectChangeRight (s\<lparr>self_lateralTuneSplit := True\<rparr>)
            else detectChange (s\<lparr>self_lateralTuneSplit := True\<rparr>), dc \<ge> LR_SPLIT_PT)"
proof (cases "self_lateralTuneSplit s")
  case True
  then have same: "s\<lparr>self_lateralTuneSplit := True\<rparr> = s" by simp
  from assms True show ?thesis by (simp add: select_tune_def Let_def same)
next
  case False
  with assms show ?thesis by (simp add: select_tune_def Let_def)
qed

lemma select_tune_just_disabled:
  assumes "\<not> lateralTuneSplit (self_CP s)" and "self_lateralTuneSplit s"
  shows "select_tune s dc = ((detectChange s)\<lparr>self_lateralTuneSplit := False\<rparr>, False)"
  using assms by (simp add: select_tune_def Let_def detectChange_frame)

lemma select_tune_enabled_close:
  assumes "lateralTuneSplit (self_CP s)"
  shows "isclose (k_f (self_pid (fst (select_tune s dc))))
           (kf (if dc \<ge> LR_SPLIT_PT then lateralTuningRight (self_CP s)
                else lateralTuning (self_CP s)))"
    and "isclose (k_p (self_pid (fst (select_tune s dc))))
           (kp (if dc \<ge> LR_SPLIT_PT then lateralTuningRight (self_CP s)
                else lateralTuning (self_CP s)))"
    and "isclose (k_i (self_pid (fst (select_tune s dc))))
           (ki (if dc \<ge> LR_SPLIT_PT then lateralTuningRight (self_CP s)
                else lateralTuning (self_CP s)))"
    and "self_use_steering_angle (fst (select_tune s dc))
           = useSteeringAngle (if dc \<ge> LR_SPLIT_PT then lateralTuningRight (self_CP s)
                               else lateralTuning (self_CP s))"
    and "snd (select_tune s dc) = (dc \<ge> LR_SPLIT_PT)"
  by (simp_all add: select_tune_enabled [OF assms] detectChange_cached detectChangeRight_cached
        detectChange_pid detectChangeRight_pid isclose_refl)

lemma select_tune_friction_close:
  assumes "lateralTuneSplit (self_CP s)"
  shows "isclose (self_friction (fst (select_tune s dc)))
           (friction (if dc \<ge> LR_SPLIT_PT then lateralTuningRight (self_CP s)
                      else lateralTuning (self_CP s)))"
  by (simp add: select_tune_enabled [OF assms] detectChange_cached detectChangeRight_cached
        isclose_refl)

lemma select_tune_just_disabled_close:
  assumes "\<not> lateralTuneSplit (self_CP s)" and "self_lateralTuneSplit s"
  shows "isclose (k_f (self_pid (fst (select_tune s dc)))) (kf (lateralTuning (self_CP s)))"
    and "isclose (k_p (self_pid (fst (select_tune s dc)))) (kp (lateralTuning (self_CP s)))"
    and "isclose (k_i (self_pid (fst (select_tune s dc)))) (ki (lateralTuning (self_CP s)))"
    and "isclose (self_friction (fst (select_tune s dc))) (friction (lateralTuning (self_CP s)))"
    and "self_use_steering_angle (fst (select_tune s dc)) = useSteeringAngle (lateralTuning (self_CP s))"
    and "snd (select_tune s dc) = False"
  by (simp_all add: select_tune_just_disabled [OF assms] detectChange_cached detectChange_pid
        isclose_refl)

lemma select_tune_other_kf:
  "self_friction (fst (select_tune
      (s\<lparr>self_CP := (self_CP s)\<lparr>lateralTuningRight := (lateralTuningRight (self_CP s))\<lparr>kf := a\<rparr>\<rparr>,
         self_pid := (self_pid s)\<lparr>k_f := b\<rparr>\<rparr>) dc))
   = self_friction (fst (select_tune s dc))"
  by (simp add: select_tune_def Let_def detectChange_cached detectChangeRight_cached
        detectChange_frame detectChangeRight_frame)

subsection \<open>What a tick that returns has computed\<close>

lemma control_law_Inr:
  assumes "control_law env s cs vm params dc dcr llk = Inr c"
  obtains ac where
    "actual_curvature s cs vm params llk = Inr ac"
    "kf (lateralTuning (self_CP s)) \<noteq> 0"
    "call_self c = fst (select_tune s dc)"
    "call_usingRightTune c = snd (select_tune s dc)"
    "call_error c =
       (dc * (vEgo cs) ^ 2 + LOW_SPEED_FACTOR * dc) - (ac * (vEgo cs) ^ 2 + LOW_SPEED_FACTOR * ac)"
    "call_friction_term c =
       interp env (dcr * (vEgo cs) ^ 2) [- JERK_THRESHOLD, JERK_THRESHOLD]
         [- self_friction (call_self c), self_friction (call_self c)]
       / kf (lateralTuning (self_CP s))"
    "call_feedforward c =
       dc * (vEgo cs) ^ 2 - roll params * ACCELERATION_DUE_TO_GRAVITY env + call_friction_term c"
    "call_actual_lateral_accel c = ac * (vEgo cs) ^ 2"
    "call_desired_lateral_accel c = dc * (vEgo cs) ^ 2"
proof (cases "actual_curvature s cs vm params llk")
  case (Inl e)
  with assms show ?thesis by (simp add: control_law_def)
next
  case (Inr ac)
  obtain s1 r where sel: "select_tune s dc = (s1, r)" by (cases "select_tune s dc")
  have cp: "self_CP s1 = self_CP s" using select_tune_frame(3) [of s dc] sel by simp
  show ?thesis
  proof (cases "kf (lateralTuning (self_CP s)) = 0")
    case True
    with assms Inr sel cp show ?thesis
      by (simp add: control_law_def Let_def pydiv_def)
  next
    case False
    with assms Inr sel cp have
      "c = \<lparr>call_self = s1, call_usingRightTune = r,
            call_error = (dc * (vEgo cs) ^ 2 + LOW_SPEED_FACTOR * dc)
                         - (ac * (vEgo cs) ^ 2 + LOW_SPEED_FACTOR * ac),
            call_feedforward = dc * (vEgo cs) ^ 2 - roll params * ACCELERATION_DUE_TO_GRAVITY env
               + interp env (dcr * (vEgo cs) ^ 2) [- JERK_THRESHOLD, JERK_THRESHOLD]
                   [- self_friction s1, self_friction s1] / kf (lateralTuning (self_CP s)),
            call_friction_term = interp env (dcr * (vEgo cs) ^ 2) [- JERK_THRESHOLD, JERK_THRESHOLD]
                   [- self_friction s1, self_friction s1] / kf (lateralTuning (self_CP s)),
            call_actual_lateral_accel = ac * (vEgo cs) ^ 2,
            call_desired_lateral_accel = dc * (vEgo cs) ^ 2\<rparr>"
      by (simp add: control_law_def Let_def pydiv_def)
    with Inr False sel that show ?thesis by simp
  qed
qed

lemma update_gated:
  assumes "vEgo cs < MIN_STEER_SPEED env \<or> \<not> active"
  shows "update env s active cs vm params dc dcr llk =
           Inr (if active then s else s\<lparr>self_pid := pid_reset env (self_pid s)\<rparr>, 0, 0, new_message)"
  using assms by (auto simp add: update_def Let_def new_message_def)

lemma update_active_Inr:
  assumes "\<not> (vEgo cs < MIN_STEER_SPEED env \<or> \<not> active)"
    and "update env s active cs vm params dc dcr llk = Inr (s', tq, z, lg)"
  obtains c where
    "control_law env s cs vm params dc dcr llk = Inr c"
    "pid_update env (self_pid (call_self c)) (call_error c) (steeringPressed cs)
       (call_feedforward c) (vEgo cs) (steeringRateLimited cs) = (self_pid s', - tq)"
    "s' = (call_self c)\<lparr>self_pid := self_pid s', base := base s'\<rparr>"
    "z = 0"
    "log_active lg"
    "log_usingRightTune lg = call_usingRightTune c"
    "log_error lg = call_error c"
    "log_output lg = tq"
proof (cases "control_law env s cs vm params dc dcr llk")
  case (Inl e)
  with assms show ?thesis by (simp add: update_def Let_def)
next
  case (Inr c)
  with assms that [of c] show ?thesis
    by (auto simp add: update_def Let_def split: prod.splits)
qed

lemma init_caches_flag:
  "self_lateralTuneSplit (init b m cp ff) = lateralTuneSplit cp"
  "self_CP (init b m cp ff) = cp"
  "pos_limit (self_pid (init b m cp ff)) = m"
  "neg_limit (self_pid (init b m cp ff)) = - m"
  "self_steer_max (init b m cp ff) = m"
  by (simp_all add: init_def PIDController_def)

lemma active_tick_caches_flag:
  assumes "\<not> (vEgo cs < MIN_STEER_SPEED env \<or> \<not> active)"
    and "update env s active cs vm params dc dcr llk = Inr (s', tq, z, lg)"
  shows "self_lateralTuneSplit s' = lateralTuneSplit (self_CP s)"
    and "self_CP s' = self_CP s"
    and "self_steer_max s' = self_steer_max s"
proof -
  from assms obtain c where
    c: "control_law env s cs vm params dc dcr llk = Inr c"
    and s': "s' = (call_self c)\<lparr>self_pid := self_pid s', base := base s'\<rparr>"
    by (rule update_active_Inr)
  from c obtain ac where
    "actual_curvature s cs vm params llk = Inr ac"
    and sel: "call_self c = fst (select_tune s dc)"
    by (rule control_law_Inr)
  have "self_lateralTuneSplit s' = self_lateralTuneSplit (call_self c)"
    "self_CP s' = self_CP (call_self c)" "self_steer_max s' = self_steer_max (call_self c)"
    by (subst s', simp)+
  then show "self_lateralTuneSplit s' = lateralTuneSplit (self_CP s)"
    and "self_CP s' = self_CP s" and "self_steer_max s' = self_steer_max s"
    by (simp_all add: sel select_tune_frame)
qed

lemma gated_tick_keeps_flag:
  assumes "vEgo cs < MIN_STEER_SPEED env \<or> \<not> active"
    and "update env s active cs vm params dc dcr llk = Inr (s', tq, z, lg)"
  shows "self_lateralTuneSplit s' = self_lateralTuneSplit s" and "self_CP s' = self_CP s"
  using update_gated [OF assms(1), of s vm params dc dcr llk] assms(2)
  by (auto split: if_splits)

lemma actual_curvature_cases:
  "actual_curvature s cs vm params llk =
     (if self_use_steering_angle s
      then Inr (- vm (radians (steeringAngleDeg cs - angleOffsetDeg params)) (vEgo cs) (roll params))
      else if \<not> 2 < length llk then Inl IndexError
      else if vEgo cs = 0 then Inl ZeroDivisionError
      else Inr (llk ! 2 / vEgo cs))"
  by (simp add: actual_curvature_def getitem_def pydiv_def)

lemma control_law_cases:
  "control_law env s cs vm params dc dcr llk =
     (case actual_curvature s cs vm params llk of
        Inl e \<Rightarrow> Inl e
      | Inr ac \<Rightarrow>
          if kf (lateralTuning (self_CP s)) = 0 then Inl ZeroDivisionError
          else Inr \<lparr>call_self = fst (select_tune s dc),
                    call_usingRightTune = snd (select_tune s dc),
                    call_error = (dc * (vEgo cs) ^ 2 + LOW_SPEED_FACTOR * dc)
                                 - (ac * (vEgo cs) ^ 2 + LOW_SPEED_FACTOR * ac),
                    call_feedforward =
                      dc * (vEgo cs) ^ 2 - roll params * ACCELERATION_DUE_TO_GRAVITY env
                      + interp env (dcr * (vEgo cs) ^ 2) [- JERK_THRESHOLD, JERK_THRESHOLD]
                          [- self_friction (fst (select_tune s dc)),
                           self_friction (fst (select_tune s dc))]
                        / kf (lateralTuning (self_CP s)),
                    call_friction_term =
                      interp env (dcr * (vEgo cs) ^ 2) [- JERK_THRESHOLD, JERK_THRESHOLD]
                          [- self_friction (fst (select_tune s dc)),
                           self_friction (fst (select_tune s dc))]
                        / kf (lateralTuning (self_CP s)),
                    call_actual_lateral_accel = ac * (vEgo cs) ^ 2,
                    call_desired_lateral_accel = dc * (vEgo cs) ^ 2\<rparr>)"
proof -
  obtain s1 r where sel: "select_tune s dc = (s1, r)" by (cases "select_tune s dc")
  have cp: "self_CP s1 = self_CP s" using select_tune_frame(3) [of s dc] sel by simp
  show ?thesis
    by (simp add: control_law_def Let_def pydiv_def sel cp split: sum.splits)
qed

lemma update_raises_iff:
  "update env s active cs vm params dc dcr llk = Inl e \<longleftrightarrow>
     \<not> (vEgo cs < MIN_STEER_SPEED env \<or> \<not> active)
     \<and> control_law env s cs vm params dc dcr llk = Inl e"
  by (auto simp add: update_def Let_def split: sum.splits prod.splits)


subsection \<open>The sample ticks\<close>

text \<open>
  The sample controllers run through \<open>update\<close> by evaluation. \<open>split_self\<close> takes a
  right-turn tick at 1 m/s with a desired curvature of 0.001 and a curvature rate of 1:
  the right-turn set is selected, the PID primitive saturates at 1 and \<open>update\<close>
  returns \<open>- 1\<close>.
\<close>

lemma not_isclose_1_2: "\<not> isclose 1 2"
  by (simp add: isclose_def)

lemma not_isclose_2_1: "\<not> isclose 2 1"
  by (simp add: isclose_def)

lemma sample_gate_open:
  "\<not> (vEgo (at_speed 1) < MIN_STEER_SPEED sample_env \<or> \<not> True)"
  "\<not> (vEgo (at_speed 20) < MIN_STEER_SPEED sample_env \<or> \<not> True)"
  by (simp_all add: at_speed_def sample_env_def)

lemma sample_flags:
  "\<not> lateralTuneSplit (self_CP drifted)" "\<not> self_lateralTuneSplit drifted"
  "lateralTuneSplit (self_CP split_self)" "self_lateralTuneSplit split_self"
  "self_lateralTuneSplit disabled_self" "\<not> lateralTuneSplit (self_CP disabled_self)"
  by (simp_all add: drifted_def split_self_def disabled_self_def split_self_after_def
        sample_self_def sample_CP_def init_def)

lemma sample_fields:
  "vEgo (at_speed v) = v" "\<not> steeringPressed (at_speed v)" "\<not> steeringRateLimited (at_speed v)"
  "roll level_road = 0"
  "kf (lateralTuning (self_CP split_self)) = 1" "kf (lateralTuningRight (self_CP split_self)) = 2"
  "friction (lateralTuningRight (self_CP split_self)) = 1"
  "self_friction split_self = 1" "\<not> self_use_steering_angle split_self"
  "self_steer_max split_self = 1"
  "pos_limit (self_pid split_self) = 1" "neg_limit (self_pid split_self) = - 1"
  "pid_i (self_pid split_self_after) = 201 / 10000"
  "self_CP disabled_self = sample_CP" "self_pid disabled_self = self_pid split_self_after"
  "kf (lateralTuning sample_CP) = 1"
  by (simp_all add: at_speed_def level_road_def split_self_def split_self_after_def
        disabled_self_def sample_self_def sample_CP_def sample_tune_def init_def
        PIDController_def)

lemma sample_pid_clamps: "pid_clamps sample_env 1"
  by (simp add: pid_clamps_def sample_env_def pid_update_clipped_def Let_def)

lemma drifted_tick:
  "update sample_env drifted True (at_speed 20) straight_model level_road 0 0 [0, 0, 0]
     = Inr (drifted, 0, 0, new_message\<lparr>log_active := True\<rparr>)"
  by (simp add: update_def control_law_def actual_curvature_def select_tune_def getitem_def
        pydiv_def sample_env_def at_speed_def level_road_def new_message_def drifted_def
        sample_self_def sample_CP_def sample_tune_def init_def PIDController_def
        pid_update_clipped_def check_saturation_instant_def
        JERK_THRESHOLD_def LOW_SPEED_FACTOR_def Let_def)

lemma split_self_select_right:
  "select_tune split_self (1 / 1000)
     = (split_self\<lparr>self_pid := (self_pid split_self)\<lparr>k_f := 2\<rparr>\<rparr>, True)"
  by (simp add: select_tune_def detectChangeRight_def LR_SPLIT_PT_def split_self_def
        sample_self_def sample_CP_def sample_tune_def init_def PIDController_def
        isclose_refl not_isclose_1_2 Let_def)

lemma split_self_right_tick:
  "control_law sample_env split_self (at_speed 1) straight_model level_road (1 / 1000) 1 [0, 0, 0]
     = Inr \<lparr>call_self = split_self\<lparr>self_pid := (self_pid split_self)\<lparr>k_f := 2\<rparr>\<rparr>,
            call_usingRightTune = True, call_error = 201 / 1000,
            call_feedforward = 1001 / 1000, call_friction_term = 1,
            call_actual_lateral_accel = 0, call_desired_lateral_accel = 1 / 1000\<rparr>"
proof -
  have cfg: "kf (lateralTuning (self_CP split_self)) = 1" "self_friction split_self = 1"
    "\<not> self_use_steering_angle split_self"
    by (simp_all add: split_self_def sample_self_def sample_CP_def sample_tune_def init_def)
  show ?thesis
    by (simp add: control_law_def actual_curvature_def getitem_def split_self_select_right
        pydiv_def sample_env_def at_speed_def level_road_def cfg
        JERK_THRESHOLD_def LOW_SPEED_FACTOR_def Let_def)
qed

lemma split_self_right_update:
  "update sample_env split_self True (at_speed 1) straight_model level_road (1 / 1000) 1 [0, 0, 0]
     = Inr (split_self_after, - 1, 0, right_tick_log)"
proof -
  have pid0: "self_pid split_self =
      \<lparr>k_p = 1, k_i = 1 / 10, k_d = 0, k_f = 1, pos_limit = 1, neg_limit = - 1,
       pid_p = 0, pid_i = 0, pid_d = 0, pid_f = 0\<rparr>"
    and more: "self_steer_max split_self = 1" "base split_self = ()"
    by (simp_all add: split_self_def sample_self_def sample_CP_def sample_tune_def init_def
          PIDController_def)
  have gate: "\<not> (vEgo (at_speed 1) < MIN_STEER_SPEED sample_env \<or> \<not> True)"
    by (simp add: at_speed_def sample_env_def)
  show ?thesis
    using gate
    by (simp add: update_def split_self_right_tick Let_def, 
        simp add: sample_env_def at_speed_def pid_update_clipped_def check_saturation_instant_def
          more pid0 split_self_after_def right_tick_log_def new_message_def Let_def)
qed

lemma disabled_self_select:
  "select_tune disabled_self 0
     = (disabled_self\<lparr>self_pid := (self_pid disabled_self)\<lparr>k_f := 1\<rparr>,
                      self_lateralTuneSplit := False\<rparr>, False)"
  by (simp add: select_tune_def detectChange_def disabled_self_def split_self_after_def
        split_self_def sample_self_def sample_CP_def sample_tune_def init_def PIDController_def
        isclose_refl not_isclose_2_1 Let_def)

lemma disabled_self_tick:
  "update sample_env disabled_self True (at_speed 1) straight_model level_road 0 0 [0, 0, 0]
     = Inr (disabled_self\<lparr>self_pid := (self_pid disabled_self)\<lparr>k_f := 1, pid_p := 0, pid_f := 0\<rparr>,
                          self_lateralTuneSplit := False\<rparr>,
            - (201 / 10000), 0,
            new_message\<lparr>log_active := True, log_i := 201 / 10000, log_output := - (201 / 10000)\<rparr>)"
proof -
  have pid0: "self_pid disabled_self =
      \<lparr>k_p = 1, k_i = 1 / 10, k_d = 0, k_f = 2, pos_limit = 1, neg_limit = - 1,
       pid_p = 201 / 1000, pid_i = 201 / 10000, pid_d = 0, pid_f = 1001 / 500\<rparr>"
    and more: "self_steer_max disabled_self = 1" "base disabled_self = ()"
      "kf (lateralTuning (self_CP disabled_self)) = 1" "self_friction disabled_self = 1"
      "\<not> self_use_steering_angle disabled_self"
    by (simp_all add: disabled_self_def split_self_after_def split_self_def sample_self_def
          sample_CP_def sample_tune_def init_def PIDController_def)
  have law: "control_law sample_env disabled_self (at_speed 1) straight_model level_road 0 0 [0, 0, 0]
     = Inr \<lparr>call_self = disabled_self\<lparr>self_pid := (self_pid disabled_self)\<lparr>k_f := 1\<rparr>,
                      self_lateralTuneSplit := False\<rparr>,
            call_usingRightTune = False, call_error = 0,
            call_feedforward = 0, call_friction_term = 0,
            call_actual_lateral_accel = 0, call_desired_lateral_accel = 0\<rparr>"
    by (simp add: control_law_def actual_curvature_def getitem_def disabled_self_select
        pydiv_def sample_env_def at_speed_def level_road_def more
        JERK_THRESHOLD_def LOW_SPEED_FACTOR_def Let_def)
  have gate: "\<not> (vEgo (at_speed 1) < MIN_STEER_SPEED sample_env \<or> \<not> True)"
    by (simp add: at_speed_def sample_env_def)
  show ?thesis
    using gate
    by (simp add: update_def law Let_def,
        simp add: sample_env_def at_speed_def pid_update_clipped_def check_saturation_instant_def
          more pid0 new_message_def Let_def)
qed

lemma zero_kf_tick:
  "update sample_env zero_kf_self True (at_speed 20) straight_model level_road 0 0 [0, 0, 0]
     = Inl ZeroDivisionError"
  by (simp add: update_raises_iff control_law_cases actual_curvature_cases
        zero_kf_self_def sample_self_def sample_CP_def sample_tune_def init_def
        sample_env_def at_speed_def)

subsection \<open>The gate\<close>

text \<open>
  C1. The claim: on every tick with \<open>active\<close> false or \<open>vEgo\<close> below
  \<open>MIN_STEER_SPEED\<close>, \<open>update\<close> returns torque 0.0 and the PID integrator is reset.
  The torque is 0 on all of these ticks, but \<open>self.pid.reset()\<close> sits under
  \<open>if not active\<close>. What holds: the torque is 0, the PID primitive is reset when
  \<open>active\<close> is false, and an active tick below the speed threshold leaves it as it
  was.
\<close>

theorem gated_tick_resets_only_when_inactive:
  assumes "vEgo cs < MIN_STEER_SPEED env \<or> \<not> active"
  shows "\<exists>s' lg. update env s active cs vm params dc dcr llk = Inr (s', 0, 0, lg)
           \<and> self_pid s' = (if active then self_pid s else pid_reset env (self_pid s))"
  using update_gated [OF assms, of s vm params dc dcr llk] by auto

theorem gated_tick_resets_only_when_inactive_witness:
  "\<exists>s' lg. update sample_env wound False (at_speed 20) straight_model level_road 0 0 []
             = Inr (s', 0, 0, lg)
           \<and> self_pid s' = pid_reset_cleared (self_pid wound)"
  using gated_tick_resets_only_when_inactive
          [of "at_speed 20" sample_env False wound straight_model level_road 0 0 "[]"]
  by (simp add: sample_env_def)

text \<open>
  The claim as stated fails on an active tick at 0.1 m/s, below the threshold 0.3: the
  torque is 0 and the controller comes back unchanged, its integral term still 1/2,
  where a reset would have cleared it.
\<close>

theorem low_speed_active_tick_keeps_integrator:
  "update sample_env wound True (at_speed (1 / 10)) straight_model level_road 0 0 [0, 0, 0]
     = Inr (wound, 0, 0, new_message)
   \<and> vEgo (at_speed (1 / 10)) < MIN_STEER_SPEED sample_env
   \<and> pid_i (self_pid wound) = 1 / 2
   \<and> pid_i (pid_reset sample_env (self_pid wound)) = 0"
  by (simp add: update_def sample_env_def at_speed_def new_message_def wound_def
        pid_reset_cleared_def Let_def)

text \<open>
  C7. On every tick with \<open>active\<close> false or \<open>vEgo\<close> below \<open>MIN_STEER_SPEED\<close>, \<open>update\<close>
  returns torque 0.0 and a log with \<open>active = False\<close> and nothing else filled in; the
  controller is returned as it was (no tuning switch, no cached value touched) but for
  the PID primitive, which is reset when \<open>active\<close> is false. The result does not depend
  on the curvature model, the planner's inputs or the yaw rate.
\<close>

theorem gated_tick_returns_at_once:
  assumes "vEgo cs < MIN_STEER_SPEED env \<or> \<not> active"
  shows "\<exists>s' lg. update env s active cs vm params dc dcr llk = Inr (s', 0, 0, lg)
           \<and> log_active lg = False \<and> lg = new_message
           \<and> s' = (if active then s else s\<lparr>self_pid := pid_reset env (self_pid s)\<rparr>)
           \<and> (\<not> active \<longrightarrow> self_pid s' = pid_reset env (self_pid s))"
  using update_gated [OF assms, of s vm params dc dcr llk] by (auto simp add: new_message_def)

theorem gated_tick_returns_at_once_witness:
  "\<exists>s' lg. update sample_env wound True (at_speed (1 / 10)) straight_model level_road (1 / 1000) 1 []
             = Inr (s', 0, 0, lg)
           \<and> log_active lg = False \<and> s' = wound"
  using gated_tick_returns_at_once
          [of "at_speed (1 / 10)" sample_env True wound straight_model level_road "1 / 1000" 1 "[]"]
  by (simp add: sample_env_def at_speed_def)

subsection \<open>Tuning selection\<close>

text \<open>
  C2. The claim: on an active tick with split tune disabled, now and on the tick before,
  \<open>update\<close> resyncs the live gains from the default set whenever a field has drifted.
  The only calls of \<open>detectChange\<close> are under \<open>self.lateralTuneSplit !=
  self.CP.lateralTuneSplit\<close> and under \<open>if self.CP.lateralTuneSplit\<close>; the call at the top
  of \<open>update\<close> is commented out. What holds: on such a tick no resync takes place. The
  PID primitive runs with the gains it already had, and the cached friction and
  \<open>use_steering_angle\<close> are those of the tick before, whatever the default set holds.
\<close>

theorem no_resync_while_split_stays_disabled:
  assumes "\<not> (vEgo cs < MIN_STEER_SPEED env \<or> \<not> active)"
    and "\<not> lateralTuneSplit (self_CP s)" and "\<not> self_lateralTuneSplit s"
    and "update env s active cs vm params dc dcr llk = Inr (s', tq, z, lg)"
  shows "\<exists>c. control_law env s cs vm params dc dcr llk = Inr c
            \<and> call_self c = s
            \<and> pid_update env (self_pid s) (call_error c) (steeringPressed cs)
                 (call_feedforward c) (vEgo cs) (steeringRateLimited cs) = (self_pid s', - tq)
            \<and> self_use_steering_angle s' = self_use_steering_angle s
            \<and> self_friction s' = self_friction s
            \<and> log_usingRightTune lg = False"
proof -
  from assms(1,4) obtain c where
    c: "control_law env s cs vm params dc dcr llk = Inr c"
    and run: "pid_update env (self_pid (call_self c)) (call_error c) (steeringPressed cs)
       (call_feedforward c) (vEgo cs) (steeringRateLimited cs) = (self_pid s', - tq)"
    and s': "s' = (call_self c)\<lparr>self_pid := self_pid s', base := base s'\<rparr>"
    and lg: "log_usingRightTune lg = call_usingRightTune c"
    by (rule update_active_Inr)
  from c obtain ac where
    "actual_curvature s cs vm params llk = Inr ac"
    and sel: "call_self c = fst (select_tune s dc)" "call_usingRightTune c = snd (select_tune s dc)"
    by (rule control_law_Inr)
  from sel select_tune_disabled [OF assms(2,3), of dc]
  have same: "call_self c = s" and flag: "call_usingRightTune c = False" by simp_all
  have "self_use_steering_angle s' = self_use_steering_angle s" "self_friction s' = self_friction s"
    by (subst s', simp add: same)+
  with c same run lg flag show ?thesis by simp
qed

theorem no_resync_while_split_stays_disabled_witness:
  "\<exists>c. control_law sample_env drifted (at_speed 20) straight_model level_road 0 0 [0, 0, 0] = Inr c
       \<and> call_self c = drifted
       \<and> self_friction drifted = 1"
  using no_resync_while_split_stays_disabled
          [OF sample_gate_open(2) sample_flags(1,2) drifted_tick]
  by (auto simp add: drifted_def sample_self_def sample_CP_def sample_tune_def init_def)

text \<open>
  The claim as stated fails on \<open>drifted\<close>: the default set's \<open>kf\<close> is 2, the PID
  primitive's is 1, far outside the tolerance, and after an active tick at 20 m/s the
  controller is what it was.
\<close>

theorem drift_ignored_while_split_disabled:
  "update sample_env drifted True (at_speed 20) straight_model level_road 0 0 [0, 0, 0]
     = Inr (drifted, 0, 0, new_message\<lparr>log_active := True\<rparr>)
   \<and> \<not> lateralTuneSplit (self_CP drifted) \<and> \<not> self_lateralTuneSplit drifted
   \<and> k_f (self_pid drifted) = 1 \<and> kf (lateralTuning (self_CP drifted)) = 2
   \<and> \<not> isclose 1 2"
  using drifted_tick sample_flags(1,2) not_isclose_1_2
  by (simp add: drifted_def sample_self_def sample_CP_def sample_tune_def init_def
        PIDController_def)

text \<open>
  C4. On every active tick with split tune enabled in the configuration, the log's
  \<open>usingRightTune\<close> is \<open>desired_curvature \<ge> 0.0002\<close>, and the PID primitive is run, on
  that tick, on gains \<open>k_f\<close>, \<open>k_p\<close>, \<open>k_i\<close> that are each within \<open>isclose\<close> of the selected
  set's (the right-turn set when \<open>usingRightTune\<close>, the default set otherwise); the cached
  friction is within \<open>isclose\<close> of the selected set's and the cached \<open>use_steering_angle\<close>
  equals it, and both are what the controller keeps. Nothing is assumed of the tick
  before, so this holds on every tick while split tune is enabled.
\<close>

theorem split_tune_resync_on_same_tick:
  assumes "\<not> (vEgo cs < MIN_STEER_SPEED env \<or> \<not> active)"
    and "lateralTuneSplit (self_CP s)"
    and "update env s active cs vm params dc dcr llk = Inr (s', tq, z, lg)"
  shows "log_usingRightTune lg = (dc \<ge> 2 / 10000)
       \<and> (\<exists>c. control_law env s cs vm params dc dcr llk = Inr c
              \<and> pid_update env (self_pid (call_self c)) (call_error c) (steeringPressed cs)
                   (call_feedforward c) (vEgo cs) (steeringRateLimited cs) = (self_pid s', - tq)
              \<and> isclose (k_f (self_pid (call_self c)))
                   (kf (if dc \<ge> 2 / 10000 then lateralTuningRight (self_CP s)
                        else lateralTuning (self_CP s)))
              \<and> isclose (k_p (self_pid (call_self c)))
                   (kp (if dc \<ge> 2 / 10000 then lateralTuningRight (self_CP s)
                        else lateralTuning (self_CP s)))
              \<and> isclose (k_i (self_pid (call_self c)))
                   (ki (if dc \<ge> 2 / 10000 then lateralTuningRight (self_CP s)
                        else lateralTuning (self_CP s)))
              \<and> isclose (self_friction (call_self c))
                   (friction (if dc \<ge> 2 / 10000 then lateralTuningRight (self_CP s)
                              else lateralTuning (self_CP s)))
              \<and> self_use_steering_angle (call_self c)
                   = useSteeringAngle (if dc \<ge> 2 / 10000 then lateralTuningRight (self_CP s)
                                       else lateralTuning (self_CP s))
              \<and> self_friction s' = self_friction (call_self c)
              \<and> self_use_steering_angle s' = self_use_steering_angle (call_self c))"
proof -
  from assms(1,3) obtain c where
    c: "control_law env s cs vm params dc dcr llk = Inr c"
    and run: "pid_update env (self_pid (call_self c)) (call_error c) (steeringPressed cs)
       (call_feedforward c) (vEgo cs) (steeringRateLimited cs) = (self_pid s', - tq)"
    and s': "s' = (call_self c)\<lparr>self_pid := self_pid s', base := base s'\<rparr>"
    and lg: "log_usingRightTune lg = call_usingRightTune c"
    by (rule update_active_Inr)
  from c obtain ac where
    "actual_curvature s cs vm params llk = Inr ac"
    and sel: "call_self c = fst (select_tune s dc)" "call_usingRightTune c = snd (select_tune s dc)"
    by (rule control_law_Inr)
  have pt: "LR_SPLIT_PT = 2 / 10000" by (simp add: LR_SPLIT_PT_def)
  have kept: "self_friction s' = self_friction (call_self c)"
    "self_use_steering_angle s' = self_use_steering_angle (call_self c)"
    by (subst s', simp)+
  note close = select_tune_enabled_close [OF assms(2), of dc, folded sel, unfolded pt]
    select_tune_friction_close [OF assms(2), of dc, folded sel, unfolded pt]
  from lg close(5) have "log_usingRightTune lg = (dc \<ge> 2 / 10000)" by simp
  with c run close(1-4) close(6) kept show ?thesis by blast
qed

theorem split_tune_resync_on_same_tick_witness:
  "log_usingRightTune right_tick_log = True
   \<and> (\<exists>c. control_law sample_env split_self (at_speed 1) straight_model level_road (1 / 1000) 1
              [0, 0, 0] = Inr c
          \<and> isclose (k_f (self_pid (call_self c))) (kf (lateralTuningRight (self_CP split_self)))
          \<and> pid_update sample_env (self_pid (call_self c)) (call_error c) False
               (call_feedforward c) 1 False = (self_pid split_self_after, 1))"
  using split_tune_resync_on_same_tick
          [OF sample_gate_open(1) sample_flags(3) split_self_right_update]
  by (simp add: sample_fields, blast)

text \<open>
  C8. The claim: when the configuration's split-tune flag goes from enabled to disabled,
  the next active tick resyncs the live gains to the default set's values and does not
  reset the PID integrator. Line 101 compares the configuration's flag with the cached
  \<open>self.lateralTuneSplit\<close>, which is the configuration's flag as of construction
  (\<open>init_caches_flag\<close>) or of the last active tick (\<open>active_tick_caches_flag\<close>); the
  gated branch returns before line 101 and leaves the cache alone
  (\<open>gated_tick_keeps_flag\<close>). What holds: when the cached flag is still enabled and the
  configuration's flag is disabled, the active tick runs the PID primitive on gains
  within \<open>isclose\<close> of the default set's, with the accumulated terms \<open>p\<close>, \<open>i\<close>, \<open>d\<close>,
  \<open>f\<close> handed over as they were, and leaves the cached flag disabled. A flag that was
  enabled only while gated ticks ran never reaches the cache, and disabling it is
  followed by no resync.
\<close>

theorem disabling_split_resyncs_default_without_reset:
  assumes "\<not> (vEgo cs < MIN_STEER_SPEED env \<or> \<not> active)"
    and "self_lateralTuneSplit s" and "\<not> lateralTuneSplit (self_CP s)"
    and "update env s active cs vm params dc dcr llk = Inr (s', tq, z, lg)"
  shows "\<exists>c. control_law env s cs vm params dc dcr llk = Inr c
           \<and> pid_update env (self_pid (call_self c)) (call_error c) (steeringPressed cs)
                (call_feedforward c) (vEgo cs) (steeringRateLimited cs) = (self_pid s', - tq)
           \<and> isclose (k_f (self_pid (call_self c))) (kf (lateralTuning (self_CP s)))
           \<and> isclose (k_p (self_pid (call_self c))) (kp (lateralTuning (self_CP s)))
           \<and> isclose (k_i (self_pid (call_self c))) (ki (lateralTuning (self_CP s)))
           \<and> isclose (self_friction (call_self c)) (friction (lateralTuning (self_CP s)))
           \<and> self_use_steering_angle (call_self c) = useSteeringAngle (lateralTuning (self_CP s))
           \<and> pid_p (self_pid (call_self c)) = pid_p (self_pid s)
           \<and> pid_i (self_pid (call_self c)) = pid_i (self_pid s)
           \<and> pid_d (self_pid (call_self c)) = pid_d (self_pid s)
           \<and> pid_f (self_pid (call_self c)) = pid_f (self_pid s)
           \<and> \<not> self_lateralTuneSplit s'
           \<and> log_usingRightTune lg = False"
proof -
  from assms(1,4) obtain c where
    c: "control_law env s cs vm params dc dcr llk = Inr c"
    and run: "pid_update env (self_pid (call_self c)) (call_error c) (steeringPressed cs)
       (call_feedforward c) (vEgo cs) (steeringRateLimited cs) = (self_pid s', - tq)"
    and s': "s' = (call_self c)\<lparr>self_pid := self_pid s', base := base s'\<rparr>"
    and lg: "log_usingRightTune lg = call_usingRightTune c"
    by (rule update_active_Inr)
  from c obtain ac where
    "actual_curvature s cs vm params llk = Inr ac"
    and sel: "call_self c = fst (select_tune s dc)" "call_usingRightTune c = snd (select_tune s dc)"
    by (rule control_law_Inr)
  note close = select_tune_just_disabled_close [OF assms(3,2), of dc, folded sel]
  note kept = select_tune_pid_frame(4-7) [of s dc, folded sel]
  have "self_lateralTuneSplit (call_self c) = lateralTuneSplit (self_CP s)"
    unfolding sel by (rule select_tune_frame)
  with assms(3) have "\<not> self_lateralTuneSplit (call_self c)" by simp
  then have flag: "\<not> self_lateralTuneSplit s'" by (subst s') simp
  from lg close(6) have "log_usingRightTune lg = False" by simp
  with c run close(1-5) kept flag show ?thesis by blast
qed

theorem disabling_split_resyncs_default_without_reset_witness:
  "update sample_env split_self True (at_speed 1) straight_model level_road (1 / 1000) 1 [0, 0, 0]
     = Inr (split_self_after, - 1, 0, right_tick_log)
   \<and> disabled_self = split_self_after\<lparr>self_CP := sample_CP\<rparr>
   \<and> (\<exists>c. control_law sample_env disabled_self (at_speed 1) straight_model level_road 0 0 [0, 0, 0]
             = Inr c
          \<and> isclose (k_f (self_pid (call_self c))) (kf (lateralTuning sample_CP))
          \<and> pid_i (self_pid (call_self c)) = 201 / 10000)"
proof -
  have cfg: "disabled_self = split_self_after\<lparr>self_CP := sample_CP\<rparr>"
    by (simp add: disabled_self_def)
  from disabling_split_resyncs_default_without_reset
          [OF sample_gate_open(1) sample_flags(5,6) disabled_self_tick]
    split_self_right_update cfg
  show ?thesis by (simp add: sample_fields, blast)
qed

text \<open>
  The claim as stated fails when the flag is enabled only across a gated tick. The
  sample controller is built with split tune disabled; the configuration then enables
  split tune and sets the default set's \<open>kf\<close> to 2. An active tick at 0.1 m/s, below
  the threshold, returns the controller as it is, the cached flag still disabled. The
  configuration disables split tune again, which gives \<open>drifted\<close>, and the next active
  tick, at 20 m/s, leaves the PID primitive's \<open>k_f\<close> at 1, outside the tolerance of 2.
\<close>

theorem split_enabled_only_while_gated_is_not_resynced:
  "lateralTuneSplit (self_CP enabled_while_gated)
   \<and> vEgo (at_speed (1 / 10)) < MIN_STEER_SPEED sample_env
   \<and> update sample_env enabled_while_gated True (at_speed (1 / 10)) straight_model level_road
         0 0 [0, 0, 0]
       = Inr (enabled_while_gated, 0, 0, new_message)
   \<and> enabled_while_gated\<lparr>self_CP := (self_CP enabled_while_gated)\<lparr>lateralTuneSplit := False\<rparr>\<rparr>
       = drifted
   \<and> \<not> lateralTuneSplit (self_CP drifted)
   \<and> \<not> (vEgo (at_speed 20) < MIN_STEER_SPEED sample_env)
   \<and> update sample_env drifted True (at_speed 20) straight_model level_road 0 0 [0, 0, 0]
       = Inr (drifted, 0, 0, new_message\<lparr>log_active := True\<rparr>)
   \<and> k_f (self_pid drifted) = 1 \<and> kf (lateralTuning (self_CP drifted)) = 2
   \<and> \<not> isclose 1 2"
proof -
  have gated: "vEgo (at_speed (1 / 10)) < MIN_STEER_SPEED sample_env \<or> \<not> True"
    by (simp add: at_speed_def sample_env_def)
  have first: "update sample_env enabled_while_gated True (at_speed (1 / 10)) straight_model
        level_road 0 0 [0, 0, 0] = Inr (enabled_while_gated, 0, 0, new_message)"
    using update_gated [OF gated] by simp
  have cfg: "lateralTuneSplit (self_CP enabled_while_gated)"
    "enabled_while_gated\<lparr>self_CP := (self_CP enabled_while_gated)\<lparr>lateralTuneSplit := False\<rparr>\<rparr>
       = drifted"
    "k_f (self_pid drifted) = 1" "kf (lateralTuning (self_CP drifted)) = 2"
    by (simp_all add: enabled_while_gated_def drifted_def sample_self_def sample_CP_def
          sample_tune_def init_def PIDController_def)
  from gated first cfg sample_flags(1) sample_gate_open(2) drifted_tick not_isclose_1_2
  show ?thesis by simp
qed

subsection \<open>The control law\<close>

text \<open>
  C6. On every active tick at or above \<open>MIN_STEER_SPEED\<close> that reaches the PID primitive,
  the error passed to it is \<open>setpoint - measurement\<close> with
  \<open>setpoint = desired_lateral_accel + 200 * desired_curvature\<close> and
  \<open>measurement = actual_lateral_accel + 200 * actual_curvature\<close>, the two accelerations
  being the curvatures times \<open>vEgo\<^sup>2\<close>; that is
  \<open>(desired_curvature - actual_curvature) * (vEgo\<^sup>2 + 200)\<close>. The same value is logged.
\<close>

theorem pid_error_is_low_speed_compensated:
  assumes "\<not> (vEgo cs < MIN_STEER_SPEED env \<or> \<not> active)"
    and "update env s active cs vm params dc dcr llk = Inr (s', tq, z, lg)"
  shows "\<exists>ac c. actual_curvature s cs vm params llk = Inr ac
           \<and> control_law env s cs vm params dc dcr llk = Inr c
           \<and> pid_update env (self_pid (call_self c)) (call_error c) (steeringPressed cs)
                (call_feedforward c) (vEgo cs) (steeringRateLimited cs) = (self_pid s', - tq)
           \<and> call_desired_lateral_accel c = dc * (vEgo cs) ^ 2
           \<and> call_actual_lateral_accel c = ac * (vEgo cs) ^ 2
           \<and> call_error c = (call_desired_lateral_accel c + 200 * dc)
                             - (call_actual_lateral_accel c + 200 * ac)
           \<and> call_error c = (dc - ac) * ((vEgo cs) ^ 2 + 200)
           \<and> log_error lg = call_error c"
proof -
  from assms obtain c where
    c: "control_law env s cs vm params dc dcr llk = Inr c"
    and run: "pid_update env (self_pid (call_self c)) (call_error c) (steeringPressed cs)
       (call_feedforward c) (vEgo cs) (steeringRateLimited cs) = (self_pid s', - tq)"
    and lg: "log_error lg = call_error c"
    by (rule update_active_Inr)
  from c obtain ac where
    ac: "actual_curvature s cs vm params llk = Inr ac"
    and err: "call_error c =
       (dc * (vEgo cs) ^ 2 + LOW_SPEED_FACTOR * dc) - (ac * (vEgo cs) ^ 2 + LOW_SPEED_FACTOR * ac)"
    and acc: "call_actual_lateral_accel c = ac * (vEgo cs) ^ 2"
      "call_desired_lateral_accel c = dc * (vEgo cs) ^ 2"
    by (rule control_law_Inr)
  have e1: "call_error c = (call_desired_lateral_accel c + 200 * dc)
                             - (call_actual_lateral_accel c + 200 * ac)"
    using err acc by (simp add: LOW_SPEED_FACTOR_def)
  have e2: "call_error c = (dc - ac) * ((vEgo cs) ^ 2 + 200)"
    using err by (simp add: LOW_SPEED_FACTOR_def algebra_simps)
  from ac c run acc e1 e2 lg show ?thesis by blast
qed

theorem pid_error_is_low_speed_compensated_witness:
  "\<exists>ac c. actual_curvature split_self (at_speed 1) straight_model level_road [0, 0, 0] = Inr ac
       \<and> control_law sample_env split_self (at_speed 1) straight_model level_road (1 / 1000) 1
           [0, 0, 0] = Inr c
       \<and> call_error c = (1 / 1000 - ac) * ((vEgo (at_speed 1)) ^ 2 + 200)
       \<and> log_error right_tick_log = call_error c"
  using pid_error_is_low_speed_compensated [OF sample_gate_open(1) split_self_right_update]
  by auto




text \<open>
  C10. On every active tick that gets to the division, the friction compensation is
  divided by the default set's \<open>kf\<close> read from the configuration. The right-turn set's
  \<open>kf\<close> and the PID primitive's \<open>k_f\<close> have no part in it: with any other values for
  them the tick computes the same friction contribution and the same feedforward, also
  when the right-turn set is the one selected.
\<close>

theorem friction_divisor_is_default_config_kf:
  assumes "control_law env s cs vm params dc dcr llk = Inr c"
  shows "kf (lateralTuning (self_CP s)) \<noteq> 0
       \<and> call_friction_term c =
           interp env (dcr * (vEgo cs) ^ 2) [- JERK_THRESHOLD, JERK_THRESHOLD]
             [- self_friction (call_self c), self_friction (call_self c)]
           / kf (lateralTuning (self_CP s))
       \<and> (\<forall>a b. \<exists>c'.
             control_law env
               (s\<lparr>self_CP := (self_CP s)\<lparr>lateralTuningRight :=
                                (lateralTuningRight (self_CP s))\<lparr>kf := a\<rparr>\<rparr>,
                  self_pid := (self_pid s)\<lparr>k_f := b\<rparr>\<rparr>)
               cs vm params dc dcr llk = Inr c'
             \<and> call_friction_term c' = call_friction_term c
             \<and> call_feedforward c' = call_feedforward c)"
proof -
  from assms obtain ac where
    ac: "actual_curvature s cs vm params llk = Inr ac"
    and k: "kf (lateralTuning (self_CP s)) \<noteq> 0"
    and sel: "call_self c = fst (select_tune s dc)"
    and quot: "call_friction_term c =
       interp env (dcr * (vEgo cs) ^ 2) [- JERK_THRESHOLD, JERK_THRESHOLD]
         [- self_friction (call_self c), self_friction (call_self c)]
       / kf (lateralTuning (self_CP s))"
    and ff: "call_feedforward c =
       dc * (vEgo cs) ^ 2 - roll params * ACCELERATION_DUE_TO_GRAVITY env + call_friction_term c"
    by (rule control_law_Inr)
  have "\<exists>c'. control_law env
               (s\<lparr>self_CP := (self_CP s)\<lparr>lateralTuningRight :=
                                (lateralTuningRight (self_CP s))\<lparr>kf := a\<rparr>\<rparr>,
                  self_pid := (self_pid s)\<lparr>k_f := b\<rparr>\<rparr>)
               cs vm params dc dcr llk = Inr c'
             \<and> call_friction_term c' = call_friction_term c
             \<and> call_feedforward c' = call_feedforward c" for a b
  proof -
    have ac': "actual_curvature
               (s\<lparr>self_CP := (self_CP s)\<lparr>lateralTuningRight :=
                                (lateralTuningRight (self_CP s))\<lparr>kf := a\<rparr>\<rparr>,
                  self_pid := (self_pid s)\<lparr>k_f := b\<rparr>\<rparr>) cs vm params llk = Inr ac"
      using ac by (simp add: actual_curvature_def)
    show ?thesis
      using k by (simp add: control_law_cases ac' select_tune_other_kf quot ff sel)
  qed
  with k quot show ?thesis by blast
qed

theorem friction_divisor_is_default_config_kf_witness:
  "\<exists>c'. control_law sample_env
           (split_self\<lparr>self_CP := (self_CP split_self)\<lparr>lateralTuningRight :=
                            (lateralTuningRight (self_CP split_self))\<lparr>kf := 5\<rparr>\<rparr>,
                       self_pid := (self_pid split_self)\<lparr>k_f := 7\<rparr>\<rparr>)
           (at_speed 1) straight_model level_road (1 / 1000) 1 [0, 0, 0] = Inr c'
        \<and> call_usingRightTune c' \<and> call_friction_term c' = 1 \<and> call_feedforward c' = 1001 / 1000"
proof -
  from friction_divisor_is_default_config_kf [OF split_self_right_tick]
  obtain c' where
    "control_law sample_env
           (split_self\<lparr>self_CP := (self_CP split_self)\<lparr>lateralTuningRight :=
                            (lateralTuningRight (self_CP split_self))\<lparr>kf := 5\<rparr>\<rparr>,
                       self_pid := (self_pid split_self)\<lparr>k_f := 7\<rparr>\<rparr>)
           (at_speed 1) straight_model level_road (1 / 1000) 1 [0, 0, 0] = Inr c'"
    "call_friction_term c' = 1" "call_feedforward c' = 1001 / 1000"
    by auto
  moreover from this(1) have "call_usingRightTune c'"
    by (auto simp add: control_law_cases select_tune_def Let_def LR_SPLIT_PT_def split_self_def
          sample_self_def sample_CP_def init_def split: sum.splits if_splits)
  ultimately show ?thesis by blast
qed

subsection \<open>The output bound\<close>

text \<open>
  C5. Let the PID primitive keep its output between the limits \<open>- steer_max\<close> and
  \<open>steer_max\<close> it was built with, and let the controller's PID primitive have these
  limits, as \<open>init\<close> sets them. Then the torque of every tick that returns, gated or
  not, is at most \<open>steer_max\<close> in absolute value. (A primitive that clamps between
  \<open>- steer_max\<close> and \<open>steer_max\<close> has \<open>0 \<le> steer_max\<close>, which the gated ticks need.)
\<close>

theorem torque_within_steer_max:
  assumes "pid_clamps env (self_steer_max s)"
    and "pos_limit (self_pid s) = self_steer_max s"
    and "neg_limit (self_pid s) = - self_steer_max s"
    and "update env s active cs vm params dc dcr llk = Inr (s', tq, z, lg)"
  shows "\<bar>tq\<bar> \<le> self_steer_max s"
proof (cases "vEgo cs < MIN_STEER_SPEED env \<or> \<not> active")
  case True
  from assms(1-3) have "- self_steer_max s \<le> snd (pid_update env (self_pid s) 0 False 0 0 False)"
    "snd (pid_update env (self_pid s) 0 False 0 0 False) \<le> self_steer_max s"
    unfolding pid_clamps_def by blast+
  then have "0 \<le> self_steer_max s" by linarith
  moreover from update_gated [OF True, of s vm params dc dcr llk] assms(4) have "tq = 0" by simp
  ultimately show ?thesis by simp
next
  case False
  from False assms(4) obtain c where
    c: "control_law env s cs vm params dc dcr llk = Inr c"
    and run: "pid_update env (self_pid (call_self c)) (call_error c) (steeringPressed cs)
       (call_feedforward c) (vEgo cs) (steeringRateLimited cs) = (self_pid s', - tq)"
    by (rule update_active_Inr)
  from c obtain ac where
    "actual_curvature s cs vm params llk = Inr ac"
    and sel: "call_self c = fst (select_tune s dc)"
    by (rule control_law_Inr)
  from sel assms(2,3) have lim: "pos_limit (self_pid (call_self c)) = self_steer_max s"
    "neg_limit (self_pid (call_self c)) = - self_steer_max s"
    by (simp_all add: select_tune_pid_frame)
  from assms(1) lim have
    "- self_steer_max s \<le> snd (pid_update env (self_pid (call_self c)) (call_error c)
        (steeringPressed cs) (call_feedforward c) (vEgo cs) (steeringRateLimited cs))"
    "snd (pid_update env (self_pid (call_self c)) (call_error c)
        (steeringPressed cs) (call_feedforward c) (vEgo cs) (steeringRateLimited cs))
      \<le> self_steer_max s"
    unfolding pid_clamps_def by blast+
  with run show ?thesis by simp
qed

theorem torque_within_steer_max_witness:
  "pid_clamps sample_env (self_steer_max split_self)
   \<and> update sample_env split_self True (at_speed 1) straight_model level_road (1 / 1000) 1 [0, 0, 0]
       = Inr (split_self_after, - 1, 0, right_tick_log)
   \<and> \<bar>- 1\<bar> \<le> self_steer_max split_self"
proof -
  have lim: "self_steer_max split_self = 1" "pos_limit (self_pid split_self) = self_steer_max split_self"
    "neg_limit (self_pid split_self) = - self_steer_max split_self"
    by (simp_all add: split_self_def sample_self_def init_def PIDController_def)
  have clamps: "pid_clamps sample_env (self_steer_max split_self)"
    using sample_pid_clamps lim(1) by simp
  from torque_within_steer_max [OF clamps lim(2,3) split_self_right_update] clamps
    split_self_right_update
  show ?thesis by simp
qed

subsection \<open>Exceptions\<close>

text \<open>
  C9. The claim: \<open>update\<close> never raises and never divides by zero. The division by
  \<open>vEgo\<close> is behind the gate, but line 133 divides by the configuration's \<open>kf\<close> and
  line 94 reads the third entry of the angular velocity, both unguarded. What holds,
  for \<open>MIN_STEER_SPEED > 0\<close>: \<open>update\<close> returns on every gated tick, and on an active
  tick above the gate exactly when the default set's \<open>kf\<close> is not zero and either the
  steering angle is used or the angular velocity has three entries; it raises
  \<open>ZeroDivisionError\<close> exactly when \<open>kf\<close> is zero on such a tick and \<open>IndexError\<close> exactly
  when the yaw rate is missing. Past the gate \<open>vEgo\<close> is positive and the division by
  speed does not raise.
\<close>

theorem update_raises_exactly_on_zero_kf_or_short_yaw:
  assumes "0 < MIN_STEER_SPEED env"
  shows "(update env s active cs vm params dc dcr llk = Inl ZeroDivisionError \<longleftrightarrow>
            \<not> (vEgo cs < MIN_STEER_SPEED env \<or> \<not> active)
            \<and> (self_use_steering_angle s \<or> 2 < length llk)
            \<and> kf (lateralTuning (self_CP s)) = 0)
       \<and> (update env s active cs vm params dc dcr llk = Inl IndexError \<longleftrightarrow>
            \<not> (vEgo cs < MIN_STEER_SPEED env \<or> \<not> active)
            \<and> \<not> self_use_steering_angle s \<and> \<not> 2 < length llk)
       \<and> ((\<exists>r. update env s active cs vm params dc dcr llk = Inr r) \<longleftrightarrow>
            (vEgo cs < MIN_STEER_SPEED env \<or> \<not> active)
            \<or> (self_use_steering_angle s \<or> 2 < length llk)
               \<and> kf (lateralTuning (self_CP s)) \<noteq> 0)
       \<and> (\<not> (vEgo cs < MIN_STEER_SPEED env \<or> \<not> active) \<longrightarrow>
            0 < vEgo cs \<and> actual_curvature s cs vm params llk \<noteq> Inl ZeroDivisionError)"
proof -
  have speed: "vEgo cs < MIN_STEER_SPEED env \<or> 0 < vEgo cs"
    using assms by linarith
  then have nz: "vEgo cs < MIN_STEER_SPEED env \<or> vEgo cs \<noteq> 0"
    by auto
  have zd: "update env s active cs vm params dc dcr llk = Inl ZeroDivisionError \<longleftrightarrow>
            \<not> (vEgo cs < MIN_STEER_SPEED env \<or> \<not> active)
            \<and> (self_use_steering_angle s \<or> 2 < length llk)
            \<and> kf (lateralTuning (self_CP s)) = 0"
    using nz
    by (auto simp add: update_raises_iff control_law_cases actual_curvature_cases)
  have ie: "update env s active cs vm params dc dcr llk = Inl IndexError \<longleftrightarrow>
            \<not> (vEgo cs < MIN_STEER_SPEED env \<or> \<not> active)
            \<and> \<not> self_use_steering_angle s \<and> \<not> 2 < length llk"
    using nz
    by (auto simp add: update_raises_iff control_law_cases actual_curvature_cases)
  have ok: "(\<exists>r. update env s active cs vm params dc dcr llk = Inr r) \<longleftrightarrow>
            (vEgo cs < MIN_STEER_SPEED env \<or> \<not> active)
            \<or> (self_use_steering_angle s \<or> 2 < length llk)
               \<and> kf (lateralTuning (self_CP s)) \<noteq> 0"
  proof -
    have "(\<exists>r. update env s active cs vm params dc dcr llk = Inr r) \<longleftrightarrow>
          update env s active cs vm params dc dcr llk \<noteq> Inl ZeroDivisionError
          \<and> update env s active cs vm params dc dcr llk \<noteq> Inl IndexError"
    proof (cases "update env s active cs vm params dc dcr llk")
      case (Inl e)
      then show ?thesis by (cases e) simp_all
    next
      case (Inr r)
      then show ?thesis by (simp del: split_paired_Ex)
    qed
    then show ?thesis unfolding zd ie by blast
  qed
  have div: "\<not> (vEgo cs < MIN_STEER_SPEED env \<or> \<not> active) \<longrightarrow>
            0 < vEgo cs \<and> actual_curvature s cs vm params llk \<noteq> Inl ZeroDivisionError"
    using speed nz by (auto simp add: actual_curvature_cases)
  from zd ie ok div show ?thesis by blast
qed

theorem update_raises_exactly_on_zero_kf_or_short_yaw_witness:
  "0 < MIN_STEER_SPEED sample_env
   \<and> (\<exists>r. update sample_env split_self True (at_speed 1) straight_model level_road (1 / 1000) 1
             [0, 0, 0] = Inr r)
   \<and> update sample_env split_self True (at_speed 1) straight_model level_road (1 / 1000) 1 []
       = Inl IndexError
   \<and> 0 < vEgo (at_speed 1)"
proof -
  have pos: "0 < MIN_STEER_SPEED sample_env" by (simp add: sample_env_def)
  have cfg: "kf (lateralTuning (self_CP split_self)) = 1" "\<not> self_use_steering_angle split_self"
    by (simp_all add: split_self_def sample_self_def sample_CP_def sample_tune_def init_def)
  from update_raises_exactly_on_zero_kf_or_short_yaw
         [OF pos, of split_self True "at_speed 1" straight_model level_road "1 / 1000" 1 "[0, 0, 0]"]
       update_raises_exactly_on_zero_kf_or_short_yaw
         [OF pos, of split_self True "at_speed 1" straight_model level_road "1 / 1000" 1 "[]"]
       pos sample_gate_open(1)
  show ?thesis by (simp add: cfg)
qed

text \<open>
  The claim as stated fails on a controller whose default set has \<open>kf = 0\<close>: an active
  tick at 20 m/s, well above the threshold 0.3, raises \<open>ZeroDivisionError\<close>.
\<close>

theorem update_raises_on_zero_kf:
  "update sample_env zero_kf_self True (at_speed 20) straight_model level_road 0 0 [0, 0, 0]
     = Inl ZeroDivisionError
   \<and> 0 < MIN_STEER_SPEED sample_env
   \<and> MIN_STEER_SPEED sample_env \<le> vEgo (at_speed 20)
   \<and> kf (lateralTuning (self_CP zero_kf_self)) = 0"
  using zero_kf_tick
  by (simp add: sample_env_def at_speed_def zero_kf_self_def sample_self_def sample_CP_def
        sample_tune_def init_def)

end
